theory Spec2Isabelle
  imports Main
begin

section \<open>Python values, keys and exceptions\<close>

text \<open>
  The module \<^verbatim>\<open>gaphor/UML/listmixins.py\<close> works on lists of arbitrary objects. The
  values that occur are: \<^verbatim>\<open>None\<close>, booleans, integers, text, instances of plain classes
  (a reference into an object store that holds the attributes readable on the instance),
  list-like containers (the name of the concrete class, \<^verbatim>\<open>list\<close> or a class derived from
  it, and the elements) and built-in functions. Containers are snapshots: they are not
  mutated while a query runs. A plain class defines no special methods of its own: its
  instances are true, compare by identity, are not callable and not iterable.
\<close>

text \<open>
  Exceptions by class. \<open>OtherError\<close> stands for any class that is none of the listed
  ones and derives from none of them, so that an \<^verbatim>\<open>except\<close> clause for a listed class
  catches exactly that constructor.
\<close>

datatype exn =
  AttributeError | NameError | TypeError | IndexError | ValueError | SyntaxError
| OtherError string

datatype builtin = Setattr

datatype val =
  VNone
| VBool bool
| VInt int
| VStr string
| VRef nat
| VSeq string "val list"
| VBuiltin builtin

type_synonym namespace = "string \<rightharpoonup> val"

text \<open>The object store: every reference is an object; its attributes are a dictionary.\<close>

type_synonym heap = "nat \<Rightarrow> namespace"

text \<open>A list-like container: \<open>cls\<close> is \<^verbatim>\<open>type(self)\<close>, \<open>items\<close> what iteration yields.\<close>

record pyseq =
  cls :: string
  items :: "val list"

text \<open>The keys of an indexing operation: an integer, a slice, text, or a tuple of keys.\<close>

datatype key =
  KInt int
| KSlice "int option" "int option" "int option"
| KStr string
| KTuple "key list"

section \<open>Standard list indexing\<close>

text \<open>
  \<^verbatim>\<open>list.__getitem__\<close>, which \<^verbatim>\<open>super().__getitem__\<close> reaches in
  \<^verbatim>\<open>class MList(querymixin, list)\<close> and \<^verbatim>\<open>class rlist(recursemixin, list)\<close>.
  An integer counts from the end when negative and raises \<^verbatim>\<open>IndexError\<close> out of range; a
  slice gives a plain \<^verbatim>\<open>list\<close> (also on a subclass) and raises \<^verbatim>\<open>ValueError\<close> for
  step zero; any other key raises \<^verbatim>\<open>TypeError\<close>.
\<close>

definition adjust_index :: "int \<Rightarrow> int \<Rightarrow> int \<Rightarrow> int" where
  "adjust_index n step i =
     (if i < 0 then (if i + n < 0 then (if step < 0 then - 1 else 0) else i + n)
      else if n \<le> i then (if step < 0 then n - 1 else n)
      else i)"

definition slice_items :: "val list \<Rightarrow> int option \<Rightarrow> int option \<Rightarrow> int option \<Rightarrow> exn + val list" where
  "slice_items xs a b c =
     (let n = int (length xs);
          step = (case c of None \<Rightarrow> 1 | Some k \<Rightarrow> k)
      in if step = 0 then Inl ValueError
         else
           let start = (case a of None \<Rightarrow> (if step < 0 then n - 1 else 0)
                        | Some i \<Rightarrow> adjust_index n step i);
               stop = (case b of None \<Rightarrow> (if step < 0 then - 1 else n)
                       | Some j \<Rightarrow> adjust_index n step j);
               len = (if step < 0
                      then (if stop < start then (start - stop - 1) div (- step) + 1 else 0)
                      else (if start < stop then (stop - start - 1) div step + 1 else 0))
           in Inr (map (\<lambda>k. xs ! nat (start + int k * step)) [0..<nat len]))"

definition list_getitem :: "pyseq \<Rightarrow> key \<Rightarrow> exn + val" where
  "list_getitem self k =
     (case k of
        KInt i \<Rightarrow>
          (let n = int (length (items self));
               j = (if i < 0 then i + n else i)
           in if 0 \<le> j \<and> j < n then Inr (items self ! nat j) else Inl IndexError)
      | KSlice a b c \<Rightarrow>
          (case slice_items (items self) a b c of
             Inl e \<Rightarrow> Inl e
           | Inr ys \<Rightarrow> Inr (VSeq ''list'' ys))
      | KStr s \<Rightarrow> Inl TypeError
      | KTuple ks \<Rightarrow> Inl TypeError)"

section \<open>Matcher\<close>

text \<open>
  \<^verbatim>\<open>compile\<close> and \<^verbatim>\<open>eval\<close> are the interpreter's: they are parameters of the model.
  \<open>compile\<close> turns text into a code object or raises; \<open>ev\<close> evaluates a code object with the
  given globals and locals (each may be omitted, as in Python) in a state \<open>'s\<close> and returns
  the value or the exception raised, with the state it leaves.
\<close>

type_synonym ('c, 's) evaluator =
  "'c \<Rightarrow> namespace option \<Rightarrow> namespace option \<Rightarrow> 's \<Rightarrow> (exn + val) \<times> 's"

datatype 'c Matcher = Matcher (expr: 'c)

text \<open>\<^verbatim>\<open>Matcher.__init__\<close>: \<^verbatim>\<open>compile\<close> rejects an argument that is not text.\<close>

definition Matcher_init :: "(string \<Rightarrow> exn + 'c) \<Rightarrow> key \<Rightarrow> exn + 'c Matcher" where
  "Matcher_init compile k =
     (case k of
        KStr s \<Rightarrow> (case compile s of Inl e \<Rightarrow> Inl e | Inr c \<Rightarrow> Inr (Matcher c))
      | KInt i \<Rightarrow> Inl TypeError
      | KSlice a b c \<Rightarrow> Inl TypeError
      | KTuple ks \<Rightarrow> Inl TypeError)"

text \<open>
  \<^verbatim>\<open>Matcher.__call__\<close>: evaluate with empty globals and the element bound to \<^verbatim>\<open>it\<close>;
  \<^verbatim>\<open>AttributeError\<close> and \<^verbatim>\<open>NameError\<close> become \<^verbatim>\<open>False\<close>, anything else is passed on.
\<close>

definition Matcher_call :: "('c, 's) evaluator \<Rightarrow> 'c Matcher \<Rightarrow> val \<Rightarrow> 's \<Rightarrow> (exn + val) \<times> 's" where
  "Matcher_call ev self element s =
     (case ev (expr self) (Some Map.empty) (Some [''it'' \<mapsto> element]) s of
        (Inl e, s') \<Rightarrow>
          (if e = AttributeError \<or> e = NameError then (Inr (VBool False), s')
           else (Inl e, s'))
      | (Inr v, s') \<Rightarrow> (Inr v, s'))"

section \<open>querymixin\<close>

text \<open>Truth value testing, as \<^verbatim>\<open>filter\<close> and the boolean operators apply it.\<close>

fun truthy :: "val \<Rightarrow> bool" where
  "truthy VNone = False"
| "truthy (VBool b) = b"
| "truthy (VInt i) = (i \<noteq> 0)"
| "truthy (VStr s) = (s \<noteq> [])"
| "truthy (VRef r) = True"
| "truthy (VSeq c xs) = (xs \<noteq> [])"
| "truthy (VBuiltin f) = True"

text \<open>
  \<^verbatim>\<open>list(filter(matcher, self))\<close>: the matcher is called on the elements in order, each
  call in the state the previous one left; the first exception ends the loop.
\<close>

fun filter_matcher :: "('c, 's) evaluator \<Rightarrow> 'c Matcher \<Rightarrow> val list \<Rightarrow> 's \<Rightarrow> (exn + val list) \<times> 's" where
  "filter_matcher ev m [] s = (Inr [], s)"
| "filter_matcher ev m (x # xs) s =
     (case Matcher_call ev m x s of
        (Inl e, s') \<Rightarrow> (Inl e, s')
      | (Inr v, s') \<Rightarrow>
          (case filter_matcher ev m xs s' of
             (Inl e, s'') \<Rightarrow> (Inl e, s'')
           | (Inr ys, s'') \<Rightarrow> (Inr (if truthy v then x # ys else ys), s'')))"

text \<open>
  The first lines of the \<^verbatim>\<open>except TypeError\<close> branch: a tuple key is split into its
  first element and the rest (\<^verbatim>\<open>key[0]\<close> raises \<^verbatim>\<open>IndexError\<close> on the empty tuple);
  any other key has the remainder \<^verbatim>\<open>None\<close>.
\<close>

definition split_key :: "key \<Rightarrow> exn + key \<times> key list option" where
  "split_key k =
     (case k of
        KTuple ks \<Rightarrow> (case ks of [] \<Rightarrow> Inl IndexError | k0 # rest \<Rightarrow> Inr (k0, Some rest))
      | KInt i \<Rightarrow> Inr (k, None)
      | KSlice a b c \<Rightarrow> Inr (k, None)
      | KStr s \<Rightarrow> Inr (k, None))"

text \<open>\<^verbatim>\<open>if remainder:\<close> holds for a tuple that is not empty.\<close>

definition remainder_true :: "key list option \<Rightarrow> bool" where
  "remainder_true r = (case r of None \<Rightarrow> False | Some ks \<Rightarrow> ks \<noteq> [])"

text \<open>
  \<^verbatim>\<open>querymixin.__getitem__\<close>. The list is asked first; only its \<^verbatim>\<open>TypeError\<close> starts the
  query. \<^verbatim>\<open>type(self)(matched).__getitem__(*remainder)\<close> is this method again on the
  filtered list when the remainder has one element; with more elements the call has too many
  arguments, which is a \<^verbatim>\<open>TypeError\<close>.
\<close>

function querymixin_getitem ::
  "(string \<Rightarrow> exn + 'c) \<Rightarrow> ('c, 's) evaluator \<Rightarrow> pyseq \<Rightarrow> key \<Rightarrow> 's \<Rightarrow> (exn + val) \<times> 's" where
  "querymixin_getitem compile ev self k s =
     (case list_getitem self k of
        Inr v \<Rightarrow> (Inr v, s)
      | Inl e \<Rightarrow>
          if e \<noteq> TypeError then (Inl e, s)
          else
            (case split_key k of
               Inl e1 \<Rightarrow> (Inl e1, s)
             | Inr (k0, remainder) \<Rightarrow>
                 (case Matcher_init compile k0 of
                    Inl e2 \<Rightarrow> (Inl e2, s)
                  | Inr matcher \<Rightarrow>
                      (case filter_matcher ev matcher (items self) s of
                         (Inl e3, s') \<Rightarrow> (Inl e3, s')
                       | (Inr matched, s') \<Rightarrow>
                           if remainder_true remainder then
                             (case remainder of
                                Some [k1] \<Rightarrow>
                                  querymixin_getitem compile ev (self\<lparr>items := matched\<rparr>) k1 s'
                              | _ \<Rightarrow> (Inl TypeError, s'))
                           else (Inr (VSeq (cls self) matched), s')))))"
  by pat_completeness auto
termination
proof (relation "measure (\<lambda>(compile, ev, self, k, s). size k)", goal_cases)
  case 1
  show ?case by simp
next
  case 2
  then show ?case
    by (auto simp: split_key_def split: key.splits list.splits)
qed

declare querymixin_getitem.simps [simp del]

section \<open>A fragment of Python expressions\<close>

text \<open>
  An evaluator for the examples: names, attribute reads, literals, \<^verbatim>\<open>==\<close> and \<^verbatim>\<open>!=\<close>,
  \<^verbatim>\<open>and\<close>, \<^verbatim>\<open>or\<close>, \<^verbatim>\<open>not\<close> and calls, with Python's evaluation order and
  short-circuiting. It answers only where the values of the model determine what Python
  does. Where they do not, the result is \<open>None\<close>: the evaluation is outside the model,
  and nothing is stated about it. That is so for an attribute of a value of a built-in
  type (a method of text, \<^verbatim>\<open>real\<close> of an integer), for an attribute name with two leading
  underscores, for the name \<^verbatim>\<open>__builtins__\<close> that \<^verbatim>\<open>eval\<close> adds to the globals it is
  given, for a built-in name whose value is no value of the model, and for \<^verbatim>\<open>setattr\<close> on
  an instance of a class derived from \<^verbatim>\<open>list\<close>.
\<close>

datatype cmpop = Eq | NotEq

datatype boolop = And | Or

datatype pyexpr =
  Constant val
| Name string
| Attribute pyexpr string
| Compare pyexpr cmpop pyexpr
| BoolOp boolop pyexpr pyexpr
| UnaryNot pyexpr
| Call pyexpr "pyexpr list"

text \<open>
  What the built-in names hold for a name: nothing (the name is no built-in), a value of
  the model, or an object outside the model.
\<close>

datatype binding = Absent | Present val | Unmodelled

text \<open>
  A frame is the environment a piece of code runs in. \<^verbatim>\<open>eval\<close> takes the globals and
  locals of the calling frame when none are passed, and resolves a name in the locals, the
  globals and then the built-in names: those of the frame, when the globals have no
  entry \<^verbatim>\<open>__builtins__\<close> of their own.
\<close>

record frame =
  f_builtins :: "string \<Rightarrow> binding"
  f_globals :: namespace
  f_locals :: namespace

definition dunder :: "string \<Rightarrow> bool" where
  "dunder a = (take 2 a = ''__'')"

definition lookup_name ::
  "(string \<Rightarrow> binding) \<Rightarrow> namespace \<Rightarrow> namespace \<Rightarrow> string \<Rightarrow> (exn + val) option" where
  "lookup_name B L G n =
     (case L n of
        Some v \<Rightarrow> Some (Inr v)
      | None \<Rightarrow>
          (case G n of
             Some v \<Rightarrow> Some (Inr v)
           | None \<Rightarrow>
               if n = ''__builtins__'' \<or> G ''__builtins__'' \<noteq> None then None
               else
                 (case B n of
                    Present v \<Rightarrow> Some (Inr v)
                  | Absent \<Rightarrow> Some (Inl NameError)
                  | Unmodelled \<Rightarrow> None)))"

text \<open>
  \<^verbatim>\<open>getattr(obj, name)\<close> on an instance of a plain class: the object's entry in the store
  lists the attributes readable on it, apart from those with two leading underscores.
\<close>

fun py_getattr :: "heap \<Rightarrow> val \<Rightarrow> string \<Rightarrow> (exn + val) option" where
  "py_getattr h (VRef r) a =
     (if dunder a then None
      else (case h r a of Some v \<Rightarrow> Some (Inr v) | None \<Rightarrow> Some (Inl AttributeError)))"
| "py_getattr h v a = None"

text \<open>
  \<^verbatim>\<open>==\<close>: numbers by value (\<^verbatim>\<open>True == 1\<close>), text by content, lists element by element
  whatever their class, objects and functions by identity; values of different kinds are
  unequal.
\<close>

fun norm_val :: "val \<Rightarrow> val" where
  "norm_val (VBool b) = VInt (if b then 1 else 0)"
| "norm_val (VSeq c xs) = VSeq [] (map norm_val xs)"
| "norm_val v = v"

definition py_eq :: "val \<Rightarrow> val \<Rightarrow> bool" where
  "py_eq a b = (norm_val a = norm_val b)"

definition compare_op :: "cmpop \<Rightarrow> val \<Rightarrow> val \<Rightarrow> val" where
  "compare_op op a b = (case op of Eq \<Rightarrow> VBool (py_eq a b) | NotEq \<Rightarrow> VBool (\<not> py_eq a b))"

text \<open>
  The built-in \<^verbatim>\<open>setattr(obj, name, value)\<close>: three arguments, the name text; it stores
  the attribute on an instance of a plain class and returns \<^verbatim>\<open>None\<close>; on a value of a
  built-in type, a plain \<^verbatim>\<open>list\<close> included, it raises \<^verbatim>\<open>AttributeError\<close>.
\<close>

definition call_builtin :: "builtin \<Rightarrow> val list \<Rightarrow> heap \<Rightarrow> ((exn + val) \<times> heap) option" where
  "call_builtin f args h =
     (case f of
        Setattr \<Rightarrow>
          (case args of
             [obj, name, v] \<Rightarrow>
               (case name of
                  VStr a \<Rightarrow>
                    if dunder a then None
                    else
                      (case obj of
                         VRef r \<Rightarrow> Some (Inr VNone, h(r := (h r)(a \<mapsto> v)))
                       | VSeq c xs \<Rightarrow>
                           if c = ''list'' then Some (Inl AttributeError, h) else None
                       | _ \<Rightarrow> Some (Inl AttributeError, h))
                | _ \<Rightarrow> Some (Inl TypeError, h))
           | _ \<Rightarrow> Some (Inl TypeError, h)))"

text \<open>A call: of the values of the model only the built-in functions are callable.\<close>

definition py_call :: "val \<Rightarrow> val list \<Rightarrow> heap \<Rightarrow> ((exn + val) \<times> heap) option" where
  "py_call f args h =
     (case f of VBuiltin b \<Rightarrow> call_builtin b args h | _ \<Rightarrow> Some (Inl TypeError, h))"

fun eval_expr ::
    "(string \<Rightarrow> binding) \<Rightarrow> namespace \<Rightarrow> namespace \<Rightarrow> pyexpr \<Rightarrow> heap \<Rightarrow> ((exn + val) \<times> heap) option"
  and eval_args ::
    "(string \<Rightarrow> binding) \<Rightarrow> namespace \<Rightarrow> namespace \<Rightarrow> pyexpr list \<Rightarrow> heap \<Rightarrow> ((exn + val list) \<times> heap) option"
where
  "eval_expr B L G (Constant v) h = Some (Inr v, h)"
| "eval_expr B L G (Name n) h =
     (case lookup_name B L G n of None \<Rightarrow> None | Some r \<Rightarrow> Some (r, h))"
| "eval_expr B L G (Attribute e a) h =
     (case eval_expr B L G e h of
        None \<Rightarrow> None
      | Some (Inl x, h1) \<Rightarrow> Some (Inl x, h1)
      | Some (Inr v, h1) \<Rightarrow>
          (case py_getattr h1 v a of None \<Rightarrow> None | Some r \<Rightarrow> Some (r, h1)))"
| "eval_expr B L G (Compare e1 op e2) h =
     (case eval_expr B L G e1 h of
        None \<Rightarrow> None
      | Some (Inl x, h1) \<Rightarrow> Some (Inl x, h1)
      | Some (Inr v1, h1) \<Rightarrow>
          (case eval_expr B L G e2 h1 of
             None \<Rightarrow> None
           | Some (Inl x, h2) \<Rightarrow> Some (Inl x, h2)
           | Some (Inr v2, h2) \<Rightarrow> Some (Inr (compare_op op v1 v2), h2)))"
| "eval_expr B L G (BoolOp op e1 e2) h =
     (case eval_expr B L G e1 h of
        None \<Rightarrow> None
      | Some (Inl x, h1) \<Rightarrow> Some (Inl x, h1)
      | Some (Inr v1, h1) \<Rightarrow>
          (case op of
             And \<Rightarrow> (if truthy v1 then eval_expr B L G e2 h1 else Some (Inr v1, h1))
           | Or \<Rightarrow> (if truthy v1 then Some (Inr v1, h1) else eval_expr B L G e2 h1)))"
| "eval_expr B L G (UnaryNot e) h =
     (case eval_expr B L G e h of
        None \<Rightarrow> None
      | Some (Inl x, h1) \<Rightarrow> Some (Inl x, h1)
      | Some (Inr v, h1) \<Rightarrow> Some (Inr (VBool (\<not> truthy v)), h1))"
| "eval_expr B L G (Call f args) h =
     (case eval_expr B L G f h of
        None \<Rightarrow> None
      | Some (Inl x, h1) \<Rightarrow> Some (Inl x, h1)
      | Some (Inr fv, h1) \<Rightarrow>
          (case eval_args B L G args h1 of
             None \<Rightarrow> None
           | Some (Inl x, h2) \<Rightarrow> Some (Inl x, h2)
           | Some (Inr vs, h2) \<Rightarrow> py_call fv vs h2))"
| "eval_args B L G [] h = Some (Inr [], h)"
| "eval_args B L G (e # es) h =
     (case eval_expr B L G e h of
        None \<Rightarrow> None
      | Some (Inl x, h1) \<Rightarrow> Some (Inl x, h1)
      | Some (Inr v, h1) \<Rightarrow>
          (case eval_args B L G es h1 of
             None \<Rightarrow> None
           | Some (Inl x, h2) \<Rightarrow> Some (Inl x, h2)
           | Some (Inr vs, h2) \<Rightarrow> Some (Inr (v # vs), h2)))"

text \<open>
  \<^verbatim>\<open>eval(code, globals, locals)\<close> called from the frame \<open>fr\<close>: omitted globals are the
  frame's, omitted locals are the globals. Outside the model the result is left
  unspecified (\<open>the None\<close>).
\<close>

definition py_eval :: "frame \<Rightarrow> (pyexpr, heap) evaluator" where
  "py_eval fr code g l h =
     (let G = (case g of None \<Rightarrow> f_globals fr | Some d \<Rightarrow> d);
          L = (case l of
                 None \<Rightarrow> (case g of None \<Rightarrow> f_locals fr | Some d \<Rightarrow> d)
               | Some d \<Rightarrow> d)
      in the (eval_expr (f_builtins fr) L G code h))"

section \<open>recurseproxy and recursemixin\<close>

text \<open>
  \<^verbatim>\<open>getattr\<close> and \<^verbatim>\<open>iter\<close> are the interpreter's: they are parameters of the model.
  \<open>getattr\<close> gives the value of an attribute of a value or the exception raised;
  \<open>iter\<close> gives the members that iterating a value yields, or the exception that
  \<^verbatim>\<open>iter(obj)\<close> raises (\<^verbatim>\<open>TypeError\<close> for a value that is not iterable).
\<close>

type_synonym getattr_fn = "val \<Rightarrow> string \<Rightarrow> exn + val"

type_synonym iter_fn = "val \<Rightarrow> exn + val list"

text \<open>\<^verbatim>\<open>iter(obj)\<close> on the values of the model: text yields its characters, a list its elements.\<close>

fun py_iter :: iter_fn where
  "py_iter (VStr s) = Inr (map (\<lambda>c. VStr [c]) s)"
| "py_iter (VSeq c xs) = Inr xs"
| "py_iter v = Inl TypeError"

fun isinstance_str :: "val \<Rightarrow> bool" where
  "isinstance_str (VStr s) = True"
| "isinstance_str v = False"

text \<open>
  \<^verbatim>\<open>issafeiterable\<close>: the iterator that \<^verbatim>\<open>iter\<close> returns is a true value, so the result
  is \<^verbatim>\<open>not isinstance(obj, str)\<close>; a \<^verbatim>\<open>TypeError\<close> of \<^verbatim>\<open>iter\<close> gives \<^verbatim>\<open>False\<close>.
\<close>

definition issafeiterable :: "iter_fn \<Rightarrow> val \<Rightarrow> exn + bool" where
  "issafeiterable iter obj =
     (case iter obj of
        Inr ys \<Rightarrow> Inr (True \<and> \<not> isinstance_str obj)
      | Inl e \<Rightarrow> if e = TypeError then Inr False else Inl e)"

datatype recurseproxy = Recurseproxy (sequence: pyseq)

definition recurseproxy_iter :: "recurseproxy \<Rightarrow> val list" where
  "recurseproxy_iter self = items (sequence self)"

text \<open>What one turn of the loop in \<^verbatim>\<open>mygetattr\<close> yields inside its \<^verbatim>\<open>try\<close>.\<close>

definition mygetattr_body :: "getattr_fn \<Rightarrow> iter_fn \<Rightarrow> val \<Rightarrow> string \<Rightarrow> exn + val list" where
  "mygetattr_body getattr iter e k =
     (case getattr e k of
        Inl x \<Rightarrow> Inl x
      | Inr obj \<Rightarrow>
          (case issafeiterable iter obj of
             Inl x \<Rightarrow> Inl x
           | Inr safe \<Rightarrow> if safe then iter obj else Inr [obj]))"

text \<open>The generator \<^verbatim>\<open>mygetattr\<close>, run to its end: only \<^verbatim>\<open>AttributeError\<close> is passed over.\<close>

fun mygetattr :: "getattr_fn \<Rightarrow> iter_fn \<Rightarrow> val list \<Rightarrow> string \<Rightarrow> exn + val list" where
  "mygetattr getattr iter [] k = Inr []"
| "mygetattr getattr iter (e # es) k =
     (case mygetattr_body getattr iter e k of
        Inl x \<Rightarrow> if x = AttributeError then mygetattr getattr iter es k else Inl x
      | Inr ys \<Rightarrow>
          (case mygetattr getattr iter es k of
             Inl x \<Rightarrow> Inl x
           | Inr zs \<Rightarrow> Inr (ys @ zs)))"

text \<open>\<^verbatim>\<open>recurseproxy.__getattr__\<close>: \<^verbatim>\<open>type(self)(type(self.__sequence)(mygetattr()))\<close>.\<close>

definition recurseproxy_getattr ::
  "getattr_fn \<Rightarrow> iter_fn \<Rightarrow> recurseproxy \<Rightarrow> string \<Rightarrow> exn + recurseproxy" where
  "recurseproxy_getattr getattr iter self k =
     (case mygetattr getattr iter (items (sequence self)) k of
        Inl x \<Rightarrow> Inl x
      | Inr ys \<Rightarrow> Inr (Recurseproxy \<lparr>cls = cls (sequence self), items = ys\<rparr>))"

text \<open>\<^verbatim>\<open>recursemixin\<close>: the trigger is \<^verbatim>\<open>slice(None, None, None)\<close>.\<close>

definition recursemixin_trigger :: key where
  "recursemixin_trigger = KSlice None None None"

definition proxy_class :: "pyseq \<Rightarrow> recurseproxy" where
  "proxy_class = Recurseproxy"

datatype getitem_result = Item val | Proxy recurseproxy

definition recursemixin_getitem :: "pyseq \<Rightarrow> key \<Rightarrow> exn + getitem_result" where
  "recursemixin_getitem self k =
     (if k = recursemixin_trigger then Inr (Proxy (proxy_class self))
      else (case list_getitem self k of Inl e \<Rightarrow> Inl e | Inr v \<Rightarrow> Inr (Item v)))"

section \<open>Notions used to state the properties\<close>

text \<open>
  The results of applying a matcher to every element in order, each call in the state the
  previous call left; \<open>matches\<close> keeps the elements whose call returned a true value.
\<close>

fun matcher_outcomes :: "('c, 's) evaluator \<Rightarrow> 'c Matcher \<Rightarrow> val list \<Rightarrow> 's \<Rightarrow> (exn + val) list" where
  "matcher_outcomes ev m [] s = []"
| "matcher_outcomes ev m (x # xs) s =
     (case Matcher_call ev m x s of (r, s') \<Rightarrow> r # matcher_outcomes ev m xs s')"

fun returned_true :: "exn + val \<Rightarrow> bool" where
  "returned_true (Inr v) = truthy v"
| "returned_true (Inl e) = False"

definition matches :: "val list \<Rightarrow> (exn + val) list \<Rightarrow> val list" where
  "matches xs rs = map fst (filter (\<lambda>(x, r). returned_true r) (zip xs rs))"

text \<open>
  A chained attribute path \<^verbatim>\<open>e.a1.a2...\<close> as an expression, and the value it denotes
  from a start value, read attribute by attribute (\<open>None\<close> where a read is outside the
  model).
\<close>

fun attr_path :: "pyexpr \<Rightarrow> string list \<Rightarrow> pyexpr" where
  "attr_path e [] = e"
| "attr_path e (a # as) = attr_path (Attribute e a) as"

fun resolve :: "heap \<Rightarrow> val \<Rightarrow> string list \<Rightarrow> (exn + val) option" where
  "resolve h v [] = Some (Inr v)"
| "resolve h v (a # as) =
     (case py_getattr h v a of
        None \<Rightarrow> None
      | Some (Inl x) \<Rightarrow> Some (Inl x)
      | Some (Inr w) \<Rightarrow> resolve h w as)"

text \<open>Expressions without a call.\<close>

fun call_free :: "pyexpr \<Rightarrow> bool" where
  "call_free (Constant v) = True"
| "call_free (Name n) = True"
| "call_free (Attribute e a) = call_free e"
| "call_free (Compare e1 op e2) = (call_free e1 \<and> call_free e2)"
| "call_free (BoolOp op e1 e2) = (call_free e1 \<and> call_free e2)"
| "call_free (UnaryNot e) = call_free e"
| "call_free (Call f args) = False"

text \<open>
  The projection of one element as the design describes it: nothing when the attribute is
  missing, the members of a value that is iterable and not text, the value itself otherwise.
\<close>

definition is_iterable :: "iter_fn \<Rightarrow> val \<Rightarrow> bool" where
  "is_iterable iter v = (case iter v of Inr ys \<Rightarrow> True | Inl e \<Rightarrow> False)"

definition members :: "iter_fn \<Rightarrow> val \<Rightarrow> val list" where
  "members iter v = (case iter v of Inr ys \<Rightarrow> ys | Inl e \<Rightarrow> [])"

definition projected :: "getattr_fn \<Rightarrow> iter_fn \<Rightarrow> string \<Rightarrow> val \<Rightarrow> val list" where
  "projected getattr iter k e =
     (case getattr e k of
        Inl x \<Rightarrow> []
      | Inr v \<Rightarrow> if is_iterable iter v \<and> \<not> isinstance_str v then members iter v else [v])"

text \<open>
  Reading the attribute of an element either gives a value or raises \<^verbatim>\<open>AttributeError\<close>
  (the element lacks the attribute), and \<^verbatim>\<open>iter\<close> on the value either gives its members
  or raises \<^verbatim>\<open>TypeError\<close> (the value is not iterable).
\<close>

definition plain_access :: "getattr_fn \<Rightarrow> iter_fn \<Rightarrow> string \<Rightarrow> val \<Rightarrow> bool" where
  "plain_access getattr iter k e =
     (case getattr e k of
        Inl x \<Rightarrow> x = AttributeError
      | Inr v \<Rightarrow> (case iter v of Inl x \<Rightarrow> x = TypeError | Inr ys \<Rightarrow> True))"

section \<open>Example objects\<close>

text \<open>
  The built-in names of the example frames: \<^verbatim>\<open>setattr\<close> is the built-in function;
  \<^verbatim>\<open>name\<close>, \<^verbatim>\<open>element\<close> and \<^verbatim>\<open>limit\<close> are no built-in names; what any other name
  holds is outside the model. The second frame binds two names of its own.
\<close>

definition std_builtins :: "string \<Rightarrow> binding" where
  "std_builtins n =
     (if n = ''setattr'' then Present (VBuiltin Setattr)
      else if n = ''name'' \<or> n = ''element'' \<or> n = ''limit'' then Absent
      else Unmodelled)"

definition module_frame :: frame where
  "module_frame = \<lparr>f_builtins = std_builtins, f_globals = Map.empty, f_locals = Map.empty\<rparr>"

definition caller_frame :: frame where
  "caller_frame =
     \<lparr>f_builtins = std_builtins, f_globals = [''limit'' \<mapsto> VInt 3],
      f_locals = [''element'' \<mapsto> VRef 1]\<rparr>"

text \<open>
  Three queries with the syntax trees Python's parser gives them; \<open>compile_table\<close> is the
  compiler on these three texts (no other text is compiled below).
\<close>

definition name_is_two :: string where
  \<open>name_is_two = ''it.name=="two"''\<close>

definition name_called :: string where
  \<open>name_called = ''it.name()''\<close>

definition nonexistent_is_root :: string where
  \<open>nonexistent_is_root = ''it.nonexistent=="root"''\<close>

definition compile_table :: "string \<Rightarrow> exn + pyexpr" where
  "compile_table src =
     (if src = name_is_two
      then Inr (Compare (Attribute (Name ''it'') ''name'') Eq (Constant (VStr ''two'')))
      else if src = name_called
      then Inr (Call (Attribute (Name ''it'') ''name'') [])
      else if src = nonexistent_is_root
      then Inr (Compare (Attribute (Name ''it'') ''nonexistent'') Eq (Constant (VStr ''root'')))
      else Inl SyntaxError)"

text \<open>The list \<^verbatim>\<open>m\<close> of the \<^verbatim>\<open>querymixin\<close> docstring: \<^verbatim>\<open>A('one'), A('two'), A('three')\<close>.\<close>

definition names_heap :: heap where
  "names_heap =
     (\<lambda>r. Map.empty)
       (0 := [''name'' \<mapsto> VStr ''one''],
        1 := [''name'' \<mapsto> VStr ''two''],
        2 := [''name'' \<mapsto> VStr ''three''])"

definition mlist :: pyseq where
  "mlist = \<lparr>cls = ''MList'', items = [VRef 0, VRef 1, VRef 2]\<rparr>"

text \<open>
  Objects with a name and children, arranged as the tree of the \<^verbatim>\<open>recursemixin\<close>
  docstring below its root (\<^verbatim>\<open>a\<close> with \<^verbatim>\<open>b\<close>, \<^verbatim>\<open>c\<close>, \<^verbatim>\<open>d\<close> and \<^verbatim>\<open>e\<close> with \<^verbatim>\<open>one\<close>,
  \<^verbatim>\<open>two\<close>), and a third child that has a name and no \<^verbatim>\<open>children\<close>. Their class has no
  method of its own. \<open>tree_getattr\<close> is \<^verbatim>\<open>getattr\<close> on these objects.
\<close>

definition tree_heap :: heap where
  "tree_heap =
     (\<lambda>r. Map.empty)
       (10 := [''name'' \<mapsto> VStr ''a'', ''children'' \<mapsto> VSeq ''rlist'' [VRef 12, VRef 13, VRef 14]],
        11 := [''name'' \<mapsto> VStr ''e'', ''children'' \<mapsto> VSeq ''rlist'' [VRef 15, VRef 16]],
        12 := [''name'' \<mapsto> VStr ''b'', ''children'' \<mapsto> VSeq ''rlist'' []],
        13 := [''name'' \<mapsto> VStr ''c'', ''children'' \<mapsto> VSeq ''rlist'' []],
        14 := [''name'' \<mapsto> VStr ''d'', ''children'' \<mapsto> VSeq ''rlist'' []],
        15 := [''name'' \<mapsto> VStr ''one'', ''children'' \<mapsto> VSeq ''rlist'' []],
        16 := [''name'' \<mapsto> VStr ''two'', ''children'' \<mapsto> VSeq ''rlist'' []],
        17 := [''name'' \<mapsto> VStr ''leaf''])"

definition root_children :: pyseq where
  "root_children = \<lparr>cls = ''rlist'', items = [VRef 10, VRef 11, VRef 17]\<rparr>"

definition tree_getattr :: getattr_fn where
  "tree_getattr v a = the (py_getattr tree_heap v a)"

text \<open>
  An object with a flag, the query \<^verbatim>\<open>it.flag or setattr(it, "flag", True)\<close>, and the
  query \<^verbatim>\<open>setattr(5, "x", 1)\<close>.
\<close>

definition flag_heap :: heap where
  "flag_heap = (\<lambda>r. Map.empty)(0 := [''flag'' \<mapsto> VBool False])"

definition set_flag :: pyexpr where
  "set_flag =
     BoolOp Or (Attribute (Name ''it'') ''flag'')
       (Call (Name ''setattr'') [Name ''it'', Constant (VStr ''flag''), Constant (VBool True)])"

definition set_on_int :: pyexpr where
  "set_on_int =
     Call (Name ''setattr'') [Constant (VInt 5), Constant (VStr ''x''), Constant (VInt 1)]"

section \<open>Unfolding the query\<close>

lemmas example_defs =
  std_builtins_def module_frame_def caller_frame_def name_is_two_def name_called_def
  nonexistent_is_root_def compile_table_def names_heap_def mlist_def tree_heap_def
  root_children_def tree_getattr_def flag_heap_def set_flag_def set_on_int_def

lemmas eval_defs =
  py_eval_def Matcher_call_def lookup_name_def compare_op_def py_eq_def py_call_def
  call_builtin_def dunder_def Let_def

lemma querymixin_getitem_KInt:
  "querymixin_getitem compile ev self (KInt i) s =
     (case list_getitem self (KInt i) of Inl e \<Rightarrow> (Inl e, s) | Inr v \<Rightarrow> (Inr v, s))"
  by (subst querymixin_getitem.simps) (simp add: list_getitem_def Let_def)

lemma querymixin_getitem_KSlice:
  "querymixin_getitem compile ev self (KSlice a b c) s =
     (case list_getitem self (KSlice a b c) of Inl e \<Rightarrow> (Inl e, s) | Inr v \<Rightarrow> (Inr v, s))"
  by (subst querymixin_getitem.simps)
     (simp add: list_getitem_def slice_items_def Let_def split: sum.splits)

lemma querymixin_getitem_KStr:
  "querymixin_getitem compile ev self (KStr p) s =
     (case compile p of
        Inl e \<Rightarrow> (Inl e, s)
      | Inr c \<Rightarrow>
          (case filter_matcher ev (Matcher c) (items self) s of
             (Inl e, s') \<Rightarrow> (Inl e, s')
           | (Inr matched, s') \<Rightarrow> (Inr (VSeq (cls self) matched), s')))"
  by (subst querymixin_getitem.simps)
     (simp add: list_getitem_def split_key_def remainder_true_def Matcher_init_def
           split: sum.splits prod.splits)

lemma querymixin_getitem_single:
  "querymixin_getitem compile ev self (KTuple [KStr p]) s =
     (case compile p of
        Inl e \<Rightarrow> (Inl e, s)
      | Inr c \<Rightarrow>
          (case filter_matcher ev (Matcher c) (items self) s of
             (Inl e, s') \<Rightarrow> (Inl e, s')
           | (Inr matched, s') \<Rightarrow> (Inr (VSeq (cls self) matched), s')))"
  by (subst querymixin_getitem.simps)
     (simp add: list_getitem_def split_key_def remainder_true_def Matcher_init_def
           split: sum.splits prod.splits)

lemma querymixin_getitem_pair:
  "querymixin_getitem compile ev self (KTuple [KStr p, k]) s =
     (case compile p of
        Inl e \<Rightarrow> (Inl e, s)
      | Inr c \<Rightarrow>
          (case filter_matcher ev (Matcher c) (items self) s of
             (Inl e, s') \<Rightarrow> (Inl e, s')
           | (Inr matched, s') \<Rightarrow>
               querymixin_getitem compile ev (self\<lparr>items := matched\<rparr>) k s'))"
  by (subst querymixin_getitem.simps)
     (simp add: list_getitem_def split_key_def remainder_true_def Matcher_init_def
           split: sum.splits prod.splits)

lemma querymixin_getitem_long:
  "querymixin_getitem compile ev self (KTuple (KStr p # k1 # k2 # ks)) s =
     (case compile p of
        Inl e \<Rightarrow> (Inl e, s)
      | Inr c \<Rightarrow>
          (case filter_matcher ev (Matcher c) (items self) s of
             (Inl e, s') \<Rightarrow> (Inl e, s')
           | (Inr matched, s') \<Rightarrow> (Inl TypeError, s')))"
  by (subst querymixin_getitem.simps)
     (simp add: list_getitem_def split_key_def remainder_true_def Matcher_init_def
           split: sum.splits prod.splits)

lemma filter_matcher_outcomes:
  "\<forall>r \<in> set (matcher_outcomes ev m xs s). \<exists>v. r = Inr v \<Longrightarrow>
   fst (filter_matcher ev m xs s) = Inr (matches xs (matcher_outcomes ev m xs s))"
proof (induction xs arbitrary: s)
  case Nil
  show ?case by (simp add: matches_def)
next
  case (Cons x xs)
  obtain r s' where call: "Matcher_call ev m x s = (r, s')"
    by (cases "Matcher_call ev m x s")
  from Cons.prems call obtain v where r: "r = Inr v"
    by auto
  from Cons.prems call have "\<forall>r \<in> set (matcher_outcomes ev m xs s'). \<exists>v. r = Inr v"
    by simp
  then have "fst (filter_matcher ev m xs s') = Inr (matches xs (matcher_outcomes ev m xs s'))"
    by (rule Cons.IH)
  then obtain ys s'' where rest: "filter_matcher ev m xs s' = (Inr ys, s'')"
    and ys: "ys = matches xs (matcher_outcomes ev m xs s')"
    by (cases "filter_matcher ev m xs s'") auto
  show ?case
    using call r rest ys by (simp add: matches_def)
qed

text \<open>The loop ends at the first call that raises, with the error of that call.\<close>

lemma filter_matcher_first_error:
  "\<not> (\<forall>r \<in> set (matcher_outcomes ev m xs s). \<exists>v. r = Inr v) \<Longrightarrow>
   \<exists>pre e post. matcher_outcomes ev m xs s = pre @ Inl e # post
     \<and> (\<forall>r \<in> set pre. \<exists>v. r = Inr v)
     \<and> fst (filter_matcher ev m xs s) = Inl e"
proof (induction xs arbitrary: s)
  case Nil
  then show ?case by simp
next
  case (Cons x xs)
  obtain r s' where call: "Matcher_call ev m x s = (r, s')"
    by (cases "Matcher_call ev m x s")
  show ?case
  proof (cases r)
    case (Inl e)
    have "matcher_outcomes ev m (x # xs) s = [] @ Inl e # matcher_outcomes ev m xs s'"
      using call Inl by simp
    moreover have "\<forall>r \<in> set ([] :: (exn + val) list). \<exists>v. r = Inr v"
      by simp
    moreover have "fst (filter_matcher ev m (x # xs) s) = Inl e"
      using call Inl by simp
    ultimately show ?thesis by blast
  next
    case (Inr v)
    with Cons.prems call have "\<not> (\<forall>r \<in> set (matcher_outcomes ev m xs s'). \<exists>v. r = Inr v)"
      by simp
    from Cons.IH [OF this]
    obtain pre e post where o: "matcher_outcomes ev m xs s' = pre @ Inl e # post"
      and p: "\<forall>r \<in> set pre. \<exists>v. r = Inr v"
      and f: "fst (filter_matcher ev m xs s') = Inl e"
      by auto
    have "matcher_outcomes ev m (x # xs) s = (Inr v # pre) @ Inl e # post"
      using call Inr o by simp
    moreover have "\<forall>r \<in> set (Inr v # pre). \<exists>w. r = Inr w"
      using p by simp
    moreover have "fst (filter_matcher ev m (x # xs) s) = Inl e"
      using call Inr f by (cases "filter_matcher ev m xs s'") auto
    ultimately show ?thesis by blast
  qed
qed

lemma pyseq_items_update: "(self :: pyseq)\<lparr>items := ys\<rparr> = \<lparr>cls = cls self, items = ys\<rparr>"
  by (cases self) simp

section \<open>The query extension\<close>

text \<open>
  C1. A text key that compiles: when no call of the matcher on an element of the sequence
  (the calls are made in sequence order) raises an error that the matcher passes on,
  \<^verbatim>\<open>seq[p]\<close> is a sequence of the class of \<^verbatim>\<open>seq\<close> that holds, in their original order,
  exactly the elements on which the matcher returned a true value; otherwise \<^verbatim>\<open>seq[p]\<close>
  raises the error of the first call that raised one.
\<close>

theorem querymixin_filter:
  assumes "compile p = Inr c"
  shows "if \<forall>r \<in> set (matcher_outcomes ev (Matcher c) (items self) s). \<exists>v. r = Inr v
         then fst (querymixin_getitem compile ev self (KStr p) s) =
                Inr (VSeq (cls self)
                      (matches (items self) (matcher_outcomes ev (Matcher c) (items self) s)))
         else \<exists>pre e post.
                matcher_outcomes ev (Matcher c) (items self) s = pre @ Inl e # post
                \<and> (\<forall>r \<in> set pre. \<exists>v. r = Inr v)
                \<and> fst (querymixin_getitem compile ev self (KStr p) s) = Inl e"
proof (cases "\<forall>r \<in> set (matcher_outcomes ev (Matcher c) (items self) s). \<exists>v. r = Inr v")
  case True
  then have "fst (filter_matcher ev (Matcher c) (items self) s) =
      Inr (matches (items self) (matcher_outcomes ev (Matcher c) (items self) s))"
    by (rule filter_matcher_outcomes)
  then have "fst (querymixin_getitem compile ev self (KStr p) s) =
      Inr (VSeq (cls self)
            (matches (items self) (matcher_outcomes ev (Matcher c) (items self) s)))"
    using assms
    by (cases "filter_matcher ev (Matcher c) (items self) s") (auto simp: querymixin_getitem_KStr)
  with True show ?thesis by simp
next
  case False
  from filter_matcher_first_error [OF False]
  obtain pre e post
    where o: "matcher_outcomes ev (Matcher c) (items self) s = pre @ Inl e # post"
      and p: "\<forall>r \<in> set pre. \<exists>v. r = Inr v"
      and f: "fst (filter_matcher ev (Matcher c) (items self) s) = Inl e"
    by auto
  have "fst (querymixin_getitem compile ev self (KStr p) s) = Inl e"
    using assms f
    by (cases "filter_matcher ev (Matcher c) (items self) s") (auto simp: querymixin_getitem_KStr)
  with o p have e: "\<exists>pre e post.
      matcher_outcomes ev (Matcher c) (items self) s = pre @ Inl e # post
      \<and> (\<forall>r \<in> set pre. \<exists>v. r = Inr v)
      \<and> fst (querymixin_getitem compile ev self (KStr p) s) = Inl e"
    by blast
  show ?thesis
    by (subst if_not_P [OF False]) (rule e)
qed

text \<open>The docstring's \<^verbatim>\<open>m['it.name=="two"']\<close>: the one element named two, in an \<^verbatim>\<open>MList\<close>.\<close>

theorem querymixin_filter_witness:
  "compile_table name_is_two =
     Inr (Compare (Attribute (Name ''it'') ''name'') Eq (Constant (VStr ''two'')))
   \<and> matcher_outcomes (py_eval module_frame)
        (Matcher (Compare (Attribute (Name ''it'') ''name'') Eq (Constant (VStr ''two''))))
        (items mlist) names_heap
      = [Inr (VBool False), Inr (VBool True), Inr (VBool False)]
   \<and> fst (querymixin_getitem compile_table (py_eval module_frame) mlist (KStr name_is_two) names_heap)
      = Inr (VSeq ''MList'' [VRef 1])"
proof -
  let ?c = "Compare (Attribute (Name ''it'') ''name'') Eq (Constant (VStr ''two''))"
  have c: "compile_table name_is_two = Inr ?c"
    by (simp add: compile_table_def)
  have o: "matcher_outcomes (py_eval module_frame) (Matcher ?c) (items mlist) names_heap
        = [Inr (VBool False), Inr (VBool True), Inr (VBool False)]"
    by (simp add: example_defs eval_defs)
  have ok: "\<forall>r \<in> set (matcher_outcomes (py_eval module_frame) (Matcher ?c) (items mlist) names_heap).
      \<exists>v. r = Inr v"
    by (simp add: o)
  show ?thesis
    using querymixin_filter [where compile = compile_table and p = name_is_two
        and ev = "py_eval module_frame" and self = mlist and s = names_heap, OF c] ok c o
    by (simp add: matches_def mlist_def)
qed

text \<open>
  \<^verbatim>\<open>m['it.name()']\<close> compiles, and calling the text \<^verbatim>\<open>'one'\<close> raises \<^verbatim>\<open>TypeError\<close>,
  which the matcher and the query pass on: no sequence is returned.
\<close>

theorem querymixin_filter_raises:
  "compile_table name_called = Inr (Call (Attribute (Name ''it'') ''name'') [])
   \<and> fst (querymixin_getitem compile_table (py_eval module_frame) mlist (KStr name_called) names_heap)
      = Inl TypeError"
  by (simp add: querymixin_getitem_KStr example_defs eval_defs)

text \<open>
  C10. The key \<^verbatim>\<open>(p,)\<close> gives what \<^verbatim>\<open>p\<close> gives: the empty remainder is treated as no
  remainder.
\<close>

theorem querymixin_one_tuple:
  "querymixin_getitem compile ev self (KTuple [KStr p]) s =
   querymixin_getitem compile ev self (KStr p) s"
  by (simp only: querymixin_getitem_KStr querymixin_getitem_single)

theorem querymixin_one_tuple_witness:
  "fst (querymixin_getitem compile_table (py_eval module_frame) mlist (KTuple [KStr name_is_two]) names_heap)
     = Inr (VSeq ''MList'' [VRef 1])"
  using querymixin_one_tuple [of compile_table "py_eval module_frame" mlist name_is_two names_heap]
  by (simp add: querymixin_getitem_KStr example_defs eval_defs)

text \<open>
  C6. \<^verbatim>\<open>seq[p, i]\<close> is \<^verbatim>\<open>seq[p][i]\<close>: when \<^verbatim>\<open>seq[p]\<close> returns the filtered sequence, the
  pair key gives what indexing that sequence with \<^verbatim>\<open>i\<close> gives (for every key \<^verbatim>\<open>i\<close>, an
  integer or a slice in particular); when \<^verbatim>\<open>seq[p]\<close> raises, the pair key raises the same
  error; and an integer index on an empty filtered result raises \<^verbatim>\<open>IndexError\<close>.
\<close>

theorem querymixin_pair:
  "(querymixin_getitem compile ev self (KStr p) s = (Inr (VSeq c matched), s') \<longrightarrow>
      c = cls self \<and>
      querymixin_getitem compile ev self (KTuple [KStr p, i]) s =
        querymixin_getitem compile ev \<lparr>cls = c, items = matched\<rparr> i s')
   \<and> (querymixin_getitem compile ev self (KStr p) s = (Inl e, s') \<longrightarrow>
        querymixin_getitem compile ev self (KTuple [KStr p, i]) s = (Inl e, s'))
   \<and> (querymixin_getitem compile ev self (KStr p) s = (Inr (VSeq c []), s') \<longrightarrow>
        querymixin_getitem compile ev self (KTuple [KStr p, KInt n]) s = (Inl IndexError, s'))"
  by (auto simp: querymixin_getitem_KStr querymixin_getitem_pair pyseq_items_update
        querymixin_getitem_KInt list_getitem_def Let_def
      split: sum.splits prod.splits)

text \<open>
  The docstring's \<^verbatim>\<open>m['it.name=="two"', 0]\<close>, a slice as second key, a query that raises,
  and index 0 on the empty result of \<^verbatim>\<open>it.nonexistent=="root"\<close>.
\<close>

theorem querymixin_pair_witness:
  "fst (querymixin_getitem compile_table (py_eval module_frame) mlist (KStr name_is_two) names_heap)
     = Inr (VSeq ''MList'' [VRef 1])
   \<and> fst (querymixin_getitem compile_table (py_eval module_frame) mlist
        (KTuple [KStr name_is_two, KInt 0]) names_heap) = Inr (VRef 1)
   \<and> fst (querymixin_getitem compile_table (py_eval module_frame) mlist
        (KTuple [KStr name_is_two, KSlice None (Some 1) None]) names_heap)
       = Inr (VSeq ''list'' [VRef 1])
   \<and> fst (querymixin_getitem compile_table (py_eval module_frame) mlist
        (KTuple [KStr name_called, KInt 0]) names_heap) = Inl TypeError
   \<and> fst (querymixin_getitem compile_table (py_eval module_frame) mlist
        (KStr nonexistent_is_root) names_heap) = Inr (VSeq ''MList'' [])
   \<and> fst (querymixin_getitem compile_table (py_eval module_frame) mlist
        (KTuple [KStr nonexistent_is_root, KInt 0]) names_heap) = Inl IndexError"
proof -
  let ?q = "querymixin_getitem compile_table (py_eval module_frame) mlist"
  have a: "?q (KStr name_is_two) names_heap = (Inr (VSeq ''MList'' [VRef 1]), names_heap)"
    by (simp add: querymixin_getitem_KStr example_defs eval_defs)
  have b: "?q (KStr name_called) names_heap = (Inl TypeError, names_heap)"
    by (simp add: querymixin_getitem_KStr example_defs eval_defs)
  have c: "?q (KStr nonexistent_is_root) names_heap = (Inr (VSeq ''MList'' []), names_heap)"
    by (simp add: querymixin_getitem_KStr example_defs eval_defs)
  note t = querymixin_pair [where compile = compile_table and ev = "py_eval module_frame"
      and self = mlist and s = names_heap and s' = names_heap and e = TypeError and n = 0]
  show ?thesis
    using a b c
      t [where p = name_is_two and c = "''MList''" and matched = "[VRef 1]" and i = "KInt 0"]
      t [where p = name_is_two and c = "''MList''" and matched = "[VRef 1]"
        and i = "KSlice None (Some 1) None"]
      t [where p = name_called and c = "''MList''" and matched = "[]" and i = "KInt 0"]
      t [where p = nonexistent_is_root and c = "''MList''" and matched = "[]" and i = "KInt 0"]
    by (simp add: querymixin_getitem_KInt querymixin_getitem_KSlice list_getitem_def
        slice_items_def adjust_index_def)
qed

text \<open>
  C7. A tuple key whose first element is a predicate: with one further element \<^verbatim>\<open>k\<close>, the
  filtered sequence is indexed with \<^verbatim>\<open>k\<close>, and \<^verbatim>\<open>k\<close> may again be such a pair, so that
  \<^verbatim>\<open>(p, (q, k))\<close> filters with \<^verbatim>\<open>p\<close>, then with \<^verbatim>\<open>q\<close>, then indexes with \<^verbatim>\<open>k\<close>; with two
  or more further elements, as in \<^verbatim>\<open>(p, k1, k2)\<close>, the call raises \<^verbatim>\<open>TypeError\<close> once the
  filtering has succeeded.
\<close>

theorem querymixin_tuple_remainder:
  "querymixin_getitem compile ev self (KStr p) s = (Inr (VSeq c matched), s') \<longrightarrow>
     querymixin_getitem compile ev self (KTuple [KStr p, k]) s =
       querymixin_getitem compile ev \<lparr>cls = c, items = matched\<rparr> k s'
     \<and> (querymixin_getitem compile ev \<lparr>cls = c, items = matched\<rparr> (KStr q) s'
           = (Inr (VSeq cq matchedq), sq) \<longrightarrow>
        querymixin_getitem compile ev self (KTuple [KStr p, KTuple [KStr q, k]]) s =
          querymixin_getitem compile ev \<lparr>cls = cq, items = matchedq\<rparr> k sq)
     \<and> querymixin_getitem compile ev self (KTuple (KStr p # ka # kb # ks)) s
         = (Inl TypeError, s')"
  by (auto simp: querymixin_getitem_KStr querymixin_getitem_pair querymixin_getitem_long
        pyseq_items_update split: sum.splits prod.splits)

theorem querymixin_tuple_remainder_witness:
  "querymixin_getitem compile_table (py_eval module_frame) mlist (KStr name_is_two) names_heap
     = (Inr (VSeq ''MList'' [VRef 1]), names_heap)
   \<and> fst (querymixin_getitem compile_table (py_eval module_frame) mlist
        (KTuple [KStr name_is_two, KInt 0]) names_heap) = Inr (VRef 1)
   \<and> fst (querymixin_getitem compile_table (py_eval module_frame) mlist
        (KTuple [KStr name_is_two, KTuple [KStr name_is_two, KInt 0]]) names_heap) = Inr (VRef 1)
   \<and> fst (querymixin_getitem compile_table (py_eval module_frame) mlist
        (KTuple [KStr name_is_two, KInt 0, KInt 0]) names_heap) = Inl TypeError"
proof -
  let ?q = "querymixin_getitem compile_table (py_eval module_frame)"
  have a: "?q mlist (KStr name_is_two) names_heap = (Inr (VSeq ''MList'' [VRef 1]), names_heap)"
    by (simp add: querymixin_getitem_KStr example_defs eval_defs)
  have b: "?q \<lparr>cls = ''MList'', items = [VRef 1]\<rparr> (KStr name_is_two) names_heap
      = (Inr (VSeq ''MList'' [VRef 1]), names_heap)"
    by (simp add: querymixin_getitem_KStr example_defs eval_defs)
  show ?thesis
    using a b
      querymixin_tuple_remainder [where compile = compile_table and ev = "py_eval module_frame"
        and self = mlist and s = names_heap and s' = names_heap and p = name_is_two
        and c = "''MList''" and matched = "[VRef 1]" and k = "KInt 0" and q = name_is_two
        and cq = "''MList''" and matchedq = "[VRef 1]" and sq = names_heap
        and ka = "KInt 0" and kb = "KInt 0" and ks = "[]"]
    by (simp add: querymixin_getitem_KInt list_getitem_def)
qed

text \<open>
  \<^verbatim>\<open>m[p, p, 0]\<close> with \<^verbatim>\<open>p\<close> the query \<^verbatim>\<open>it.name=="two"\<close> raises \<^verbatim>\<open>TypeError\<close>, while
  \<^verbatim>\<open>m[p]\<close>, then \<^verbatim>\<open>[p]\<close>, then \<^verbatim>\<open>[0]\<close> gives the element named two.
\<close>

theorem querymixin_three_tuple_raises:
  "fst (querymixin_getitem compile_table (py_eval module_frame) mlist
        (KTuple [KStr name_is_two, KStr name_is_two, KInt 0]) names_heap) = Inl TypeError
   \<and> querymixin_getitem compile_table (py_eval module_frame) mlist (KStr name_is_two) names_heap
       = (Inr (VSeq ''MList'' [VRef 1]), names_heap)
   \<and> querymixin_getitem compile_table (py_eval module_frame) \<lparr>cls = ''MList'', items = [VRef 1]\<rparr>
        (KStr name_is_two) names_heap = (Inr (VSeq ''MList'' [VRef 1]), names_heap)
   \<and> querymixin_getitem compile_table (py_eval module_frame) \<lparr>cls = ''MList'', items = [VRef 1]\<rparr>
        (KInt 0) names_heap = (Inr (VRef 1), names_heap)"
  by (simp add: querymixin_getitem_KStr querymixin_getitem_long querymixin_getitem_KInt
        list_getitem_def example_defs eval_defs)

section \<open>The matcher\<close>

lemma py_getattr_error: "py_getattr h v a = Some (Inl x) \<Longrightarrow> x = AttributeError"
  by (cases v) (auto split: option.splits if_splits)

lemma resolve_error: "resolve h v as = Some (Inl x) \<Longrightarrow> x = AttributeError"
proof (induction as arbitrary: v)
  case Nil
  then show ?case by simp
next
  case (Cons a as)
  show ?case
  proof (cases "py_getattr h v a")
    case None
    with Cons.prems show ?thesis by simp
  next
    case (Some r)
    show ?thesis
    proof (cases r)
      case (Inl y)
      with Some Cons.prems have "y = x" by simp
      with Some Inl show ?thesis by (auto dest: py_getattr_error)
    next
      case (Inr w)
      with Some Cons.prems have "resolve h w as = Some (Inl x)" by simp
      then show ?thesis by (rule Cons.IH)
    qed
  qed
qed

lemma lookup_name_error: "lookup_name B L G n = Some (Inl x) \<Longrightarrow> x = NameError"
  by (auto simp: lookup_name_def split: option.splits if_splits binding.splits)

lemma eval_attr_path:
  "eval_expr B L G (attr_path e as) h =
     (case eval_expr B L G e h of
        None \<Rightarrow> None
      | Some (Inl x, h1) \<Rightarrow> Some (Inl x, h1)
      | Some (Inr v, h1) \<Rightarrow>
          (case resolve h1 v as of None \<Rightarrow> None | Some r \<Rightarrow> Some (r, h1)))"
proof (induction as arbitrary: e)
  case Nil
  show ?case by (simp split: option.splits prod.splits sum.splits)
next
  case (Cons a as)
  show ?case
    by (simp add: Cons.IH split: option.splits prod.splits sum.splits)
qed

lemma eval_call_free:
  "call_free c \<Longrightarrow> eval_expr B L G c h = Some (r, h') \<Longrightarrow> h' = h"
proof (induction c arbitrary: h r h')
  case (Constant v)
  then show ?case by simp
next
  case (Name n)
  then show ?case by (simp split: option.splits)
next
  case (Attribute c a)
  have f: "\<And>h r h'. eval_expr B L G c h = Some (r, h') \<Longrightarrow> h' = h"
    using Attribute.IH Attribute.prems(1) by simp
  from Attribute.prems(2) show ?case
    by (auto split: option.splits sum.splits dest!: f)
next
  case (Compare c1 op c2)
  have f1: "\<And>h r h'. eval_expr B L G c1 h = Some (r, h') \<Longrightarrow> h' = h"
    using Compare.IH(1) Compare.prems(1) by simp
  have f2: "\<And>h r h'. eval_expr B L G c2 h = Some (r, h') \<Longrightarrow> h' = h"
    using Compare.IH(2) Compare.prems(1) by simp
  from Compare.prems(2) show ?case
    by (auto split: option.splits sum.splits dest!: f1 f2)
next
  case (BoolOp op c1 c2)
  have f1: "\<And>h r h'. eval_expr B L G c1 h = Some (r, h') \<Longrightarrow> h' = h"
    using BoolOp.IH(1) BoolOp.prems(1) by simp
  have f2: "\<And>h r h'. eval_expr B L G c2 h = Some (r, h') \<Longrightarrow> h' = h"
    using BoolOp.IH(2) BoolOp.prems(1) by simp
  from BoolOp.prems(2) show ?case
    by (auto split: option.splits sum.splits boolop.splits if_splits dest!: f1 f2)
next
  case (UnaryNot c)
  have f: "\<And>h r h'. eval_expr B L G c h = Some (r, h') \<Longrightarrow> h' = h"
    using UnaryNot.IH UnaryNot.prems(1) by simp
  from UnaryNot.prems(2) show ?case
    by (auto split: option.splits sum.splits dest!: f)
next
  case (Call f args)
  then show ?case by simp
qed

text \<open>
  C3. Whatever the evaluator: when evaluation raises \<^verbatim>\<open>AttributeError\<close> or \<^verbatim>\<open>NameError\<close>,
  whatever raised it, the matcher returns \<^verbatim>\<open>False\<close>; an exception of any other class
  reaches the caller; a value is returned as it is. In the expression fragment, a
  comparison whose left side is an attribute path from \<^verbatim>\<open>it\<close> that breaks off at an
  object without the attribute, at any depth, gives \<^verbatim>\<open>False\<close>, and so does one whose
  left side is a name that does not resolve.
\<close>

theorem matcher_swallows:
  "(ev (expr m) (Some Map.empty) (Some [''it'' \<mapsto> e]) s = (Inl x, s') \<longrightarrow>
      Matcher_call ev m e s =
        (if x = AttributeError \<or> x = NameError then (Inr (VBool False), s') else (Inl x, s')))
   \<and> (ev (expr m) (Some Map.empty) (Some [''it'' \<mapsto> e]) s = (Inr v, s') \<longrightarrow>
        Matcher_call ev m e s = (Inr v, s'))
   \<and> (resolve h e path = Some (Inl x) \<longrightarrow>
        Matcher_call (py_eval fr) (Matcher (Compare (attr_path (Name ''it'') path) op rhs)) e h
          = (Inr (VBool False), h))
   \<and> (lookup_name (f_builtins fr) [''it'' \<mapsto> e] Map.empty n = Some (Inl x) \<longrightarrow>
        Matcher_call (py_eval fr) (Matcher (Compare (Name n) op rhs)) e h
          = (Inr (VBool False), h))"
proof (intro conjI impI)
  assume "ev (expr m) (Some Map.empty) (Some [''it'' \<mapsto> e]) s = (Inl x, s')"
  then show "Matcher_call ev m e s =
        (if x = AttributeError \<or> x = NameError then (Inr (VBool False), s') else (Inl x, s'))"
    by (simp add: Matcher_call_def)
next
  assume "ev (expr m) (Some Map.empty) (Some [''it'' \<mapsto> e]) s = (Inr v, s')"
  then show "Matcher_call ev m e s = (Inr v, s')"
    by (simp add: Matcher_call_def)
next
  assume r: "resolve h e path = Some (Inl x)"
  then have "x = AttributeError" by (rule resolve_error)
  with r show "Matcher_call (py_eval fr)
      (Matcher (Compare (attr_path (Name ''it'') path) op rhs)) e h = (Inr (VBool False), h)"
    by (simp add: Matcher_call_def py_eval_def eval_attr_path lookup_name_def)
next
  assume r: "lookup_name (f_builtins fr) [''it'' \<mapsto> e] Map.empty n = Some (Inl x)"
  then have "x = NameError" by (rule lookup_name_error)
  with r show "Matcher_call (py_eval fr) (Matcher (Compare (Name n) op rhs)) e h
      = (Inr (VBool False), h)"
    by (simp add: Matcher_call_def py_eval_def)
qed

text \<open>
  The docstring's \<^verbatim>\<open>it.nonexistent=="root"\<close> is \<^verbatim>\<open>False\<close>; \<^verbatim>\<open>name=="one"\<close> is
  \<^verbatim>\<open>False\<close>; the \<^verbatim>\<open>TypeError\<close> of \<^verbatim>\<open>it.name()\<close> is raised; \<^verbatim>\<open>it.name=="two"\<close> on the
  element named two is \<^verbatim>\<open>True\<close>.
\<close>

theorem matcher_swallows_witness:
  "py_eval module_frame (Call (Attribute (Name ''it'') ''name'') []) (Some Map.empty)
       (Some [''it'' \<mapsto> VRef 0]) names_heap = (Inl TypeError, names_heap)
   \<and> Matcher_call (py_eval module_frame) (Matcher (Call (Attribute (Name ''it'') ''name'') []))
        (VRef 0) names_heap = (Inl TypeError, names_heap)
   \<and> Matcher_call (py_eval module_frame)
        (Matcher (Compare (Attribute (Name ''it'') ''name'') Eq (Constant (VStr ''two''))))
        (VRef 1) names_heap = (Inr (VBool True), names_heap)
   \<and> resolve names_heap (VRef 0) [''nonexistent''] = Some (Inl AttributeError)
   \<and> Matcher_call (py_eval module_frame)
        (Matcher (Compare (Attribute (Name ''it'') ''nonexistent'') Eq (Constant (VStr ''root''))))
        (VRef 0) names_heap = (Inr (VBool False), names_heap)
   \<and> lookup_name (f_builtins module_frame) [''it'' \<mapsto> VRef 0] Map.empty ''name''
        = Some (Inl NameError)
   \<and> Matcher_call (py_eval module_frame)
        (Matcher (Compare (Name ''name'') Eq (Constant (VStr ''one''))))
        (VRef 0) names_heap = (Inr (VBool False), names_heap)"
proof -
  have a: "py_eval module_frame (expr (Matcher (Call (Attribute (Name ''it'') ''name'') [])))
       (Some Map.empty) (Some [''it'' \<mapsto> VRef 0]) names_heap = (Inl TypeError, names_heap)"
    by (simp add: example_defs eval_defs)
  have b: "resolve names_heap (VRef 0) [''nonexistent''] = Some (Inl AttributeError)"
    by (simp add: names_heap_def dunder_def)
  have c: "lookup_name (f_builtins module_frame) [''it'' \<mapsto> VRef 0] Map.empty ''name''
      = Some (Inl NameError)"
    by (simp add: module_frame_def std_builtins_def lookup_name_def)
  have d: "py_eval module_frame
       (expr (Matcher (Compare (Attribute (Name ''it'') ''name'') Eq (Constant (VStr ''two'')))))
       (Some Map.empty) (Some [''it'' \<mapsto> VRef 1]) names_heap = (Inr (VBool True), names_heap)"
    by (simp add: example_defs eval_defs)
  note t = matcher_swallows [where ev = "py_eval module_frame" and s = names_heap
      and s' = names_heap and h = names_heap and fr = module_frame and op = Eq]
  show ?thesis
    using a b c d
      t [where m = "Matcher (Call (Attribute (Name ''it'') ''name'') [])" and e = "VRef 0"
        and x = TypeError and v = VNone and path = "[]" and n = "''it''"
        and rhs = "Constant (VStr ''one'')"]
      t [where m = "Matcher (Compare (Attribute (Name ''it'') ''name'') Eq (Constant (VStr ''two'')))"
        and e = "VRef 1" and x = TypeError and v = "VBool True" and path = "[]" and n = "''it''"
        and rhs = "Constant (VStr ''one'')"]
      t [where m = "Matcher (Name ''it'')" and e = "VRef 0"
        and x = AttributeError and v = VNone and path = "[''nonexistent'']" and n = "''it''"
        and rhs = "Constant (VStr ''root'')"]
      t [where m = "Matcher (Name ''it'')" and e = "VRef 0"
        and x = NameError and v = VNone and path = "[]" and n = "''name''"
        and rhs = "Constant (VStr ''one'')"]
    by simp
qed

text \<open>
  \<^verbatim>\<open>setattr(5, "x", 1)\<close> fails because an integer takes no attribute: no attribute of the
  element is missing and every name resolves, yet the \<^verbatim>\<open>AttributeError\<close> is swallowed and
  the match is \<^verbatim>\<open>False\<close>.
\<close>

theorem matcher_swallows_setattr:
  "py_eval module_frame set_on_int (Some Map.empty) (Some [''it'' \<mapsto> VRef 0]) names_heap
     = (Inl AttributeError, names_heap)
   \<and> Matcher_call (py_eval module_frame) (Matcher set_on_int) (VRef 0) names_heap
     = (Inr (VBool False), names_heap)"
  by (simp add: example_defs eval_defs Let_def)




text \<open>
  C9. For an expression of the fragment without a call whose evaluation stays within the
  model (plain objects, whose attributes are read from the store), a match leaves the
  object store as it was, the element included, and a second match gives the same result.
\<close>

theorem matcher_call_free:
  assumes "call_free c"
    and "eval_expr (f_builtins fr) [''it'' \<mapsto> e] Map.empty c h = Some (r, h')"
  shows "h' = h
    \<and> snd (Matcher_call (py_eval fr) (Matcher c) e h) = h
    \<and> Matcher_call (py_eval fr) (Matcher c) e (snd (Matcher_call (py_eval fr) (Matcher c) e h))
        = Matcher_call (py_eval fr) (Matcher c) e h"
proof -
  have same: "h' = h"
    using assms by (rule eval_call_free)
  with assms(2) have "snd (Matcher_call (py_eval fr) (Matcher c) e h) = h"
    by (cases r) (auto simp: Matcher_call_def py_eval_def)
  with same show ?thesis by simp
qed

theorem matcher_call_free_witness:
  "call_free (Compare (Attribute (Name ''it'') ''name'') Eq (Constant (VStr ''two'')))
   \<and> eval_expr (f_builtins module_frame) [''it'' \<mapsto> VRef 1] Map.empty
        (Compare (Attribute (Name ''it'') ''name'') Eq (Constant (VStr ''two''))) names_heap
      = Some (Inr (VBool True), names_heap)
   \<and> Matcher_call (py_eval module_frame)
        (Matcher (Compare (Attribute (Name ''it'') ''name'') Eq (Constant (VStr ''two''))))
        (VRef 1) names_heap = (Inr (VBool True), names_heap)"
proof -
  let ?c = "Compare (Attribute (Name ''it'') ''name'') Eq (Constant (VStr ''two''))"
  have a: "call_free ?c"
    by simp
  have b: "eval_expr (f_builtins module_frame) [''it'' \<mapsto> VRef 1] Map.empty ?c names_heap
      = Some (Inr (VBool True), names_heap)"
    by (simp add: example_defs eval_defs)
  have c: "fst (Matcher_call (py_eval module_frame) (Matcher ?c) (VRef 1) names_heap)
      = Inr (VBool True)"
    by (simp add: example_defs eval_defs)
  show ?thesis
    using a b c matcher_call_free [OF a b]
    by (simp add: prod_eq_iff)
qed

text \<open>
  \<^verbatim>\<open>it.flag or setattr(it, "flag", True)\<close> on an element whose flag is \<^verbatim>\<open>False\<close>: the
  first match returns \<^verbatim>\<open>None\<close> and sets the flag on the element; the second returns
  \<^verbatim>\<open>True\<close>.
\<close>

theorem matcher_setattr_changes_element:
  "flag_heap 0 ''flag'' = Some (VBool False)
   \<and> fst (Matcher_call (py_eval module_frame) (Matcher set_flag) (VRef 0) flag_heap) = Inr VNone
   \<and> snd (Matcher_call (py_eval module_frame) (Matcher set_flag) (VRef 0) flag_heap) 0 ''flag''
       = Some (VBool True)
   \<and> fst (Matcher_call (py_eval module_frame) (Matcher set_flag) (VRef 0)
        (snd (Matcher_call (py_eval module_frame) (Matcher set_flag) (VRef 0) flag_heap)))
       = Inr (VBool True)"
  by (simp add: example_defs eval_defs Let_def)

section \<open>The recursive projection\<close>

lemma mygetattr_body_projected:
  "plain_access getattr iter k e \<Longrightarrow>
   mygetattr_body getattr iter e k =
     (case getattr e k of
        Inl x \<Rightarrow> Inl AttributeError
      | Inr v \<Rightarrow> Inr (projected getattr iter k e))"
  by (auto simp: plain_access_def mygetattr_body_def projected_def issafeiterable_def
        is_iterable_def members_def split: sum.splits)

lemma mygetattr_concat:
  "list_all (plain_access getattr iter k) es \<Longrightarrow>
   mygetattr getattr iter es k = Inr (concat (map (projected getattr iter k) es))"
proof (induction es)
  case Nil
  show ?case by simp
next
  case (Cons e es)
  then have p: "plain_access getattr iter k e"
    and ih: "mygetattr getattr iter es k = Inr (concat (map (projected getattr iter k) es))"
    by simp_all
  show ?case
  proof (cases "getattr e k")
    case (Inl x)
    then have "projected getattr iter k e = []"
      by (simp add: projected_def)
    with Inl show ?thesis
      using ih by (simp add: mygetattr_body_projected [OF p])
  next
    case (Inr v)
    then show ?thesis
      using ih by (simp add: mygetattr_body_projected [OF p])
  qed
qed

text \<open>
  C2. Whatever \<^verbatim>\<open>getattr\<close> and \<^verbatim>\<open>iter\<close> do on the values: when reading the attribute
  of each element either gives a value or fails because the element lacks the attribute,
  and each value either iterates or is not iterable, attribute access on a proxy gives a
  proxy over a sequence of the class of the previous backing sequence, holding the
  projections of its elements one after the other: nothing for an element without the
  attribute, the members of a value that is iterable and not text, the value itself in
  every other case.
\<close>

theorem recurseproxy_getattr_projection:
  assumes "list_all (plain_access getattr iter k) (items (sequence self))"
  shows "recurseproxy_getattr getattr iter self k =
     Inr (Recurseproxy \<lparr>cls = cls (sequence self),
                        items = concat (map (projected getattr iter k) (items (sequence self)))\<rparr>)"
  using assms by (simp add: recurseproxy_getattr_def mygetattr_concat)

text \<open>
  The docstring's \<^verbatim>\<open>a.children[:].children\<close> and \<^verbatim>\<open>a.children[:].children.name\<close>, with a
  third child that has no \<^verbatim>\<open>children\<close>; names are text and stay whole.
\<close>

theorem recurseproxy_getattr_projection_witness:
  "list_all (plain_access tree_getattr py_iter ''children'') (items root_children)
   \<and> recurseproxy_getattr tree_getattr py_iter (Recurseproxy root_children) ''children''
     = Inr (Recurseproxy \<lparr>cls = ''rlist'', items = [VRef 12, VRef 13, VRef 14, VRef 15, VRef 16]\<rparr>)
   \<and> list_all (plain_access tree_getattr py_iter ''name'') (items root_children)
   \<and> recurseproxy_getattr tree_getattr py_iter (Recurseproxy root_children) ''name''
     = Inr (Recurseproxy \<lparr>cls = ''rlist'', items = [VStr ''a'', VStr ''e'', VStr ''leaf'']\<rparr>)
   \<and> list_all (plain_access tree_getattr py_iter ''name'')
        [VRef 12, VRef 13, VRef 14, VRef 15, VRef 16]
   \<and> recurseproxy_getattr tree_getattr py_iter
        (Recurseproxy \<lparr>cls = ''rlist'', items = [VRef 12, VRef 13, VRef 14, VRef 15, VRef 16]\<rparr>)
        ''name''
     = Inr (Recurseproxy \<lparr>cls = ''rlist'',
          items = [VStr ''b'', VStr ''c'', VStr ''d'', VStr ''one'', VStr ''two'']\<rparr>)"
proof -
  have a: "list_all (plain_access tree_getattr py_iter ''children'')
      (items (sequence (Recurseproxy root_children)))"
    by (simp add: plain_access_def tree_getattr_def tree_heap_def root_children_def dunder_def)
  have b: "list_all (plain_access tree_getattr py_iter ''name'')
      (items (sequence (Recurseproxy root_children)))"
    by (simp add: plain_access_def tree_getattr_def tree_heap_def root_children_def dunder_def)
  have c: "list_all (plain_access tree_getattr py_iter ''name'')
      (items (sequence (Recurseproxy
        \<lparr>cls = ''rlist'', items = [VRef 12, VRef 13, VRef 14, VRef 15, VRef 16]\<rparr>)))"
    by (simp add: plain_access_def tree_getattr_def tree_heap_def dunder_def)
  show ?thesis
    using a b c
      recurseproxy_getattr_projection [OF a]
      recurseproxy_getattr_projection [OF b]
      recurseproxy_getattr_projection [OF c]
    by (simp add: tree_getattr_def tree_heap_def root_children_def projected_def
        is_iterable_def members_def dunder_def)
qed

text \<open>
  C4. Indexing with the trigger \<^verbatim>\<open>slice(None, None, None)\<close> returns, without raising, a
  proxy that wraps the sequence itself, the empty sequence included; any other key is
  handed to the list's own indexing.
\<close>

theorem recursemixin_trigger_proxy:
  "recursemixin_getitem self recursemixin_trigger = Inr (Proxy (Recurseproxy self))
   \<and> recursemixin_getitem \<lparr>cls = c, items = []\<rparr> recursemixin_trigger
       = Inr (Proxy (Recurseproxy \<lparr>cls = c, items = []\<rparr>))
   \<and> (k \<noteq> recursemixin_trigger \<longrightarrow>
        recursemixin_getitem self k =
          (case list_getitem self k of Inl e \<Rightarrow> Inl e | Inr v \<Rightarrow> Inr (Item v)))"
  by (simp add: recursemixin_getitem_def proxy_class_def)

theorem recursemixin_trigger_proxy_witness:
  "recursemixin_getitem \<lparr>cls = ''rlist'', items = []\<rparr> (KSlice None None None)
     = Inr (Proxy (Recurseproxy \<lparr>cls = ''rlist'', items = []\<rparr>))
   \<and> KInt 1 \<noteq> recursemixin_trigger
   \<and> recursemixin_getitem root_children (KInt 1) = Inr (Item (VRef 11))
   \<and> recursemixin_getitem \<lparr>cls = ''rlist'', items = []\<rparr> (KInt 0) = Inl IndexError
   \<and> recursemixin_getitem root_children (KSlice (Some 1) None None)
       = Inr (Item (VSeq ''list'' [VRef 11, VRef 17]))"
  using recursemixin_trigger_proxy [of "\<lparr>cls = ''rlist'', items = []\<rparr>" "''rlist''" "KInt 0"]
    recursemixin_trigger_proxy [of root_children "''rlist''" "KInt 1"]
    recursemixin_trigger_proxy [of root_children "''rlist''" "KSlice (Some 1) None None"]
  by (simp add: recursemixin_trigger_def list_getitem_def root_children_def slice_items_def
      adjust_index_def eval_nat_numeral)

text \<open>
  C5. Iterating the proxy that \<^verbatim>\<open>seq[:]\<close> returns yields the elements of \<^verbatim>\<open>seq\<close>, in
  order and as they are.
\<close>

theorem recurseproxy_iter_identity:
  "recursemixin_getitem self recursemixin_trigger = Inr (Proxy p) \<Longrightarrow>
   recurseproxy_iter p = items self"
  by (auto simp: recursemixin_getitem_def proxy_class_def recurseproxy_iter_def)

theorem recurseproxy_iter_identity_witness:
  "recursemixin_getitem root_children recursemixin_trigger
     = Inr (Proxy (Recurseproxy root_children))
   \<and> recurseproxy_iter (Recurseproxy root_children) = [VRef 10, VRef 11, VRef 17]"
proof -
  have h: "recursemixin_getitem root_children recursemixin_trigger
      = Inr (Proxy (Recurseproxy root_children))"
    by (simp add: recursemixin_getitem_def proxy_class_def)
  show ?thesis
    using h recurseproxy_iter_identity [OF h] by (simp add: root_children_def)
qed

end
